theory Spec2Isabelle
  imports Main
begin

section \<open>Python values shared by both pipelines\<close>

text \<open>
  A Python \<^verbatim>\<open>str\<close> is a sequence of Unicode code points and \<^verbatim>\<open>len\<close> counts code
  points, so a string is modelled as a list of code points. \<open>py\<close> embeds an ASCII
  literal; the few non-ASCII characters of the sources are written as their code point.
\<close>

type_synonym pystr = "nat list"

definition py :: "string \<Rightarrow> pystr" where
  "py s = map of_char s"

text \<open>
  The exceptions the two modules can raise. \<open>ValueError\<close> and \<open>KeyError\<close> carry the
  message respectively the missing key; a \<open>TypeError\<close> or \<open>OverflowError\<close> of the
  interpreter carries nothing the code looks at.
\<close>

datatype error = ValueError pystr | KeyError pystr | TypeError | OverflowError

definition ebind :: "error + 'a \<Rightarrow> ('a \<Rightarrow> error + 'b) \<Rightarrow> error + 'b" where
  "ebind m f = (case m of Inl e \<Rightarrow> Inl e | Inr x \<Rightarrow> f x)"

text \<open>
  The values a payload is made of. Floating point is not interpreted: a float is a value
  of a type \<open>'f\<close>. A dictionary is the list of its items, with keys that are strings
  and pairwise distinct; a lookup is \<open>map_of\<close>.
\<close>

datatype 'f pyval =
    PNone
  | PInt int
  | PFloat 'f
  | PStr pystr
  | PList "'f pyval list"
  | PDict "(pystr \<times> 'f pyval) list"

type_synonym 'f dict = "(pystr \<times> 'f pyval) list"

text \<open>
  What the interpreter does on floats, and its \<^verbatim>\<open>repr\<close> of a list or a dictionary, are
  the fields of a \<open>runtime\<close> record that every function takes: \<open>f_of_int i\<close> is
  \<^verbatim>\<open>float(i)\<close> where that does not overflow, \<open>f_eq_int x i\<close> is \<^verbatim>\<open>x == i\<close>, \<open>f_fmt2 x\<close> is
  \<^verbatim>\<open>format(x, '.2f')\<close>, \<open>f_str x\<close> is \<^verbatim>\<open>str(x)\<close>.
\<close>

record 'f runtime =
  f_of_int :: "int \<Rightarrow> 'f"
  f_add :: "'f \<Rightarrow> 'f \<Rightarrow> 'f"
  f_sub :: "'f \<Rightarrow> 'f \<Rightarrow> 'f"
  f_eq :: "'f \<Rightarrow> 'f \<Rightarrow> bool"
  f_eq_int :: "'f \<Rightarrow> int \<Rightarrow> bool"
  f_fmt2 :: "'f \<Rightarrow> pystr"
  f_str :: "'f \<Rightarrow> pystr"
  repr_container :: "'f pyval \<Rightarrow> pystr"

text \<open>\<^verbatim>\<open>str(i)\<close> of an integer: its decimal digits, with a minus sign below zero.\<close>

fun digits :: "nat \<Rightarrow> pystr" where
  "digits n = (if n < 10 then [48 + n] else digits (n div 10) @ [48 + n mod 10])"

declare digits.simps [simp del]

definition str_int :: "int \<Rightarrow> pystr" where
  "str_int i = (if i < 0 then 45 # digits (nat (- i)) else digits (nat i))"

text \<open>\<^verbatim>\<open>v[key]\<close> with a string key: only a dictionary can be subscripted by a string.\<close>

fun py_getitem :: "'f pyval \<Rightarrow> pystr \<Rightarrow> error + 'f pyval" where
  "py_getitem (PDict kvs) key =
     (case map_of kvs key of None \<Rightarrow> Inl (KeyError key) | Some v \<Rightarrow> Inr v)"
| "py_getitem _ key = Inl TypeError"

text \<open>
  \<^verbatim>\<open>iter(v)\<close>, as the list of what it yields: a string yields its characters, a
  dictionary its keys.
\<close>

fun py_iter :: "'f pyval \<Rightarrow> error + 'f pyval list" where
  "py_iter (PList xs) = Inr xs"
| "py_iter (PStr s) = Inr (map (\<lambda>c. PStr [c]) s)"
| "py_iter (PDict kvs) = Inr (map (\<lambda>kv. PStr (fst kv)) kvs)"
| "py_iter _ = Inl TypeError"

fun py_len :: "'f pyval \<Rightarrow> error + nat" where
  "py_len (PList xs) = Inr (length xs)"
| "py_len (PStr s) = Inr (length s)"
| "py_len (PDict kvs) = Inr (length kvs)"
| "py_len _ = Inl TypeError"

text \<open>
  \<^verbatim>\<open>float(i)\<close> raises \<^verbatim>\<open>OverflowError\<close> when \<open>i\<close> rounds to a magnitude beyond the largest
  double.
\<close>

definition float_of_int :: "'f runtime \<Rightarrow> int \<Rightarrow> error + 'f" where
  "float_of_int rt i =
     (if \<bar>i\<bar> < 2 ^ 1024 - 2 ^ 970 then Inr (f_of_int rt i) else Inl OverflowError)"

fun py_add :: "'f runtime \<Rightarrow> 'f pyval \<Rightarrow> 'f pyval \<Rightarrow> error + 'f pyval" where
  "py_add rt (PInt i) (PInt j) = Inr (PInt (i + j))"
| "py_add rt (PInt i) (PFloat y) = ebind (float_of_int rt i) (\<lambda>x. Inr (PFloat (f_add rt x y)))"
| "py_add rt (PFloat x) (PInt j) = ebind (float_of_int rt j) (\<lambda>y. Inr (PFloat (f_add rt x y)))"
| "py_add rt (PFloat x) (PFloat y) = Inr (PFloat (f_add rt x y))"
| "py_add rt (PStr s) (PStr t) = Inr (PStr (s @ t))"
| "py_add rt (PList xs) (PList ys) = Inr (PList (xs @ ys))"
| "py_add rt _ _ = Inl TypeError"

fun py_sub :: "'f runtime \<Rightarrow> 'f pyval \<Rightarrow> 'f pyval \<Rightarrow> error + 'f pyval" where
  "py_sub rt (PInt i) (PInt j) = Inr (PInt (i - j))"
| "py_sub rt (PInt i) (PFloat y) = ebind (float_of_int rt i) (\<lambda>x. Inr (PFloat (f_sub rt x y)))"
| "py_sub rt (PFloat x) (PInt j) = ebind (float_of_int rt j) (\<lambda>y. Inr (PFloat (f_sub rt x y)))"
| "py_sub rt (PFloat x) (PFloat y) = Inr (PFloat (f_sub rt x y))"
| "py_sub rt _ _ = Inl TypeError"

text \<open>
  \<^verbatim>\<open>format(v, '.2f')\<close>. An integer is converted to a float first, exactly up to \<open>2 ^ 53\<close>,
  where the rendering is the integer followed by two zeros. A string rejects the
  format code with a \<^verbatim>\<open>ValueError\<close>, the other types with a \<^verbatim>\<open>TypeError\<close>.
\<close>

definition unknown_format_code_msg :: pystr where
  "unknown_format_code_msg =
     py ''Unknown format code '' @ [39] @ py ''f'' @ [39] @ py '' for object of type '' @
     [39] @ py ''str'' @ [39]"

fun format_2f :: "'f runtime \<Rightarrow> 'f pyval \<Rightarrow> error + pystr" where
  "format_2f rt (PInt i) =
     (if \<bar>i\<bar> \<le> 2 ^ 53 then Inr (str_int i @ py ''.00'')
      else ebind (float_of_int rt i) (\<lambda>x. Inr (f_fmt2 rt x)))"
| "format_2f rt (PFloat x) = Inr (f_fmt2 rt x)"
| "format_2f rt (PStr s) = Inl (ValueError unknown_format_code_msg)"
| "format_2f rt _ = Inl TypeError"

text \<open>\<^verbatim>\<open>format(v, '')\<close>, what an f-string does with \<^verbatim>\<open>{v}\<close>: it is \<^verbatim>\<open>str(v)\<close>.\<close>

fun py_str :: "'f runtime \<Rightarrow> 'f pyval \<Rightarrow> pystr" where
  "py_str rt PNone = py ''None''"
| "py_str rt (PInt i) = str_int i"
| "py_str rt (PFloat x) = f_str rt x"
| "py_str rt (PStr s) = s"
| "py_str rt v = repr_container rt v"

text \<open>
  Keys of a dictionary built by the code: a list or a dictionary is unhashable; two keys
  are the same key when \<^verbatim>\<open>==\<close> holds between them.
\<close>

fun hashable :: "'f pyval \<Rightarrow> bool" where
  "hashable (PList xs) = False"
| "hashable (PDict kvs) = False"
| "hashable _ = True"

fun py_key_eq :: "'f runtime \<Rightarrow> 'f pyval \<Rightarrow> 'f pyval \<Rightarrow> bool" where
  "py_key_eq rt PNone PNone = True"
| "py_key_eq rt (PInt i) (PInt j) = (i = j)"
| "py_key_eq rt (PStr s) (PStr t) = (s = t)"
| "py_key_eq rt (PFloat x) (PFloat y) = f_eq rt x y"
| "py_key_eq rt (PInt i) (PFloat y) = f_eq_int rt y i"
| "py_key_eq rt (PFloat x) (PInt j) = f_eq_int rt x j"
| "py_key_eq rt _ _ = False"

section \<open>tienda\_online.py: the domain objects\<close>

text \<open>
  \<^verbatim>\<open>Customer\<close>. The three contact fields are optional here: \<open>None\<close> is Python's
  \<^verbatim>\<open>None\<close>, which \<^verbatim>\<open>_create_notification\<close> tests for.
\<close>

record Customer =
  name :: pystr
  email :: "pystr option"
  phone :: "pystr option"
  device_id :: "pystr option"
  notification_preferences :: "pystr list"

definition get_contact_info :: "Customer \<Rightarrow> pystr \<Rightarrow> pystr option" where
  "get_contact_info c channel =
     (if channel = py ''email'' then email c
      else if channel = py ''sms'' then phone c
      else if channel = py ''push'' then device_id c
      else None)"

definition prefers_channel :: "Customer \<Rightarrow> pystr \<Rightarrow> bool" where
  "prefers_channel c channel = (channel \<in> set (notification_preferences c))"

text \<open>
  \<^verbatim>\<open>Order\<close>, with the total as a float. Its items and its timestamp are read nowhere in
  the module.
\<close>

record 'f Order =
  order_id :: pystr
  customer :: Customer
  total :: 'f

text \<open>
  \<^verbatim>\<open>Notification\<close>. \<open>notification_id\<close> and \<open>timestamp\<close> are the two clock readings of
  the constructor, already rendered; \<open>error\<close> is the attribute that only
  \<^verbatim>\<open>mark_as_failed\<close> sets.
\<close>

record Notification =
  notification_id :: pystr
  notif_type :: pystr
  recipient :: pystr
  message :: pystr
  notif_order_id :: pystr
  timestamp :: pystr
  status :: pystr
  error :: "pystr option"

definition mark_as_sent :: "Notification \<Rightarrow> Notification" where
  "mark_as_sent n = n\<lparr>status := py ''sent''\<rparr>"

definition mark_as_failed :: "Notification \<Rightarrow> pystr \<Rightarrow> Notification" where
  "mark_as_failed n e = n\<lparr>status := py ''failed'', error := Some e\<rparr>"

section \<open>tienda\_online.py: the notification strategies\<close>

text \<open>
  Each \<^verbatim>\<open>send\<close> returns its boolean together with the notification as it has mutated
  it. The body of \<^verbatim>\<open>EmailNotifier.send\<close> cannot raise.
\<close>

definition EmailNotifier_send :: "Notification \<Rightarrow> bool \<times> Notification" where
  "EmailNotifier_send n = (True, mark_as_sent n)"

definition validate_phone :: "pystr \<Rightarrow> bool" where
  "validate_phone ph = (ph \<noteq> [] \<and> length ph > 10)"

text \<open>\<^verbatim>\<open>_format_sms\<close> cuts the message for the line \<^verbatim>\<open>send\<close> prints; nothing else reads it.\<close>

definition format_sms :: "pystr \<Rightarrow> pystr" where
  "format_sms msg = take 160 msg"

text \<open>The two messages of the validation failures; 250, 233 and 225 are the accented letters.\<close>

definition invalid_phone_msg :: pystr where
  "invalid_phone_msg = py ''N'' @ [250] @ py ''mero de tel'' @ [233] @ py ''fono inv'' @ [225] @ py ''lido''"

definition invalid_device_msg :: pystr where
  "invalid_device_msg = py ''Device ID inv'' @ [225] @ py ''lido''"

definition SMSNotifier_send :: "Notification \<Rightarrow> bool \<times> Notification" where
  "SMSNotifier_send n =
     (if \<not> validate_phone (recipient n) then (False, mark_as_failed n invalid_phone_msg)
      else (True, mark_as_sent n))"

definition startswith :: "pystr \<Rightarrow> pystr \<Rightarrow> bool" where
  "startswith s p = (take (length p) s = p)"

definition validate_device :: "pystr \<Rightarrow> bool" where
  "validate_device d = (d \<noteq> [] \<and> startswith d (py ''DEVICE-''))"

definition PushNotifier_send :: "Notification \<Rightarrow> bool \<times> Notification" where
  "PushNotifier_send n =
     (if \<not> validate_device (recipient n) then (False, mark_as_failed n invalid_device_msg)
      else (True, mark_as_sent n))"

text \<open>
  A notifier instance. The configuration the built-in notifiers hold is never read by
  \<^verbatim>\<open>send\<close>; a notifier registered from outside is its \<^verbatim>\<open>send\<close>, which may raise.
\<close>

datatype notifier =
    EmailNotifier
  | SMSNotifier
  | PushNotifier
  | CustomNotifier "Notification \<Rightarrow> error + bool \<times> Notification"

fun send :: "notifier \<Rightarrow> Notification \<Rightarrow> error + bool \<times> Notification" where
  "send EmailNotifier n = Inr (EmailNotifier_send n)"
| "send SMSNotifier n = Inr (SMSNotifier_send n)"
| "send PushNotifier n = Inr (PushNotifier_send n)"
| "send (CustomNotifier f) n = f n"

section \<open>tienda\_online.py: factory, builder, repository, manager\<close>

text \<open>
  \<^verbatim>\<open>NotificationFactory\<close> is its dictionary \<^verbatim>\<open>_notifiers\<close>. \<^verbatim>\<open>create_notifier\<close> raises
  when \<^verbatim>\<open>dict.get\<close> gives \<^verbatim>\<open>None\<close>; an instance of a strategy class defines neither
  \<^verbatim>\<open>__bool__\<close> nor \<^verbatim>\<open>__len__\<close>, so \<^verbatim>\<open>not notifier\<close> is false for every instance.
\<close>

definition NotificationFactory_init :: "pystr \<rightharpoonup> notifier" where
  "NotificationFactory_init =
     [py ''email'' \<mapsto> EmailNotifier, py ''sms'' \<mapsto> SMSNotifier, py ''push'' \<mapsto> PushNotifier]"

definition unsupported_notification_msg :: "pystr \<Rightarrow> pystr" where
  "unsupported_notification_msg t = py ''Tipo de notificaci'' @ [243] @ py ''n no soportado: '' @ t"

definition create_notifier :: "(pystr \<rightharpoonup> 'n) \<Rightarrow> pystr \<Rightarrow> error + 'n" where
  "create_notifier notifiers notification_type =
     (case notifiers notification_type of
        None \<Rightarrow> Inl (ValueError (unsupported_notification_msg notification_type))
      | Some notifier \<Rightarrow> Inr notifier)"


record 'f MessageBuilder =
  mb_order :: "'f Order option"
  mb_customer :: "Customer option"
  mb_channel :: "pystr option"

definition MessageBuilder_init :: "'f MessageBuilder" where
  "MessageBuilder_init = \<lparr>mb_order = None, mb_customer = None, mb_channel = None\<rparr>"

definition set_order :: "'f MessageBuilder \<Rightarrow> 'f Order \<Rightarrow> 'f MessageBuilder" where
  "set_order b ord = b\<lparr>mb_order := Some ord\<rparr>"

definition set_customer :: "'f MessageBuilder \<Rightarrow> Customer \<Rightarrow> 'f MessageBuilder" where
  "set_customer b c = b\<lparr>mb_customer := Some c\<rparr>"

definition set_channel :: "'f MessageBuilder \<Rightarrow> pystr \<Rightarrow> 'f MessageBuilder" where
  "set_channel b ch = b\<lparr>mb_channel := Some ch\<rparr>"

text \<open>
  \<^verbatim>\<open>_apply_template\<close> builds the three templates and picks one with
  \<^verbatim>\<open>templates.get(self._channel, "Pedido confirmado")\<close>.
\<close>

definition apply_template :: "'f runtime \<Rightarrow> Customer \<Rightarrow> 'f Order \<Rightarrow> pystr \<Rightarrow> pystr" where
  "apply_template rt c ord ch =
     (if ch = py ''email'' then
        py ''Estimado '' @ name c @ py '', su pedido #'' @ order_id ord @ py '' por $'' @
        f_fmt2 rt (total ord) @ py '' ha sido confirmado. Gracias por su compra.''
      else if ch = py ''sms'' then
        py ''Pedido #'' @ order_id ord @ py '' confirmado. Total: $'' @
        f_fmt2 rt (total ord) @ py ''. Gracias!''
      else if ch = py ''push'' then
        [161] @ py ''Pedido confirmado! #'' @ order_id ord @ py '' - $'' @ f_fmt2 rt (total ord)
      else py ''Pedido confirmado'')"

definition personalize :: "pystr \<Rightarrow> pystr" where
  "personalize msg = msg"

text \<open>
  \<^verbatim>\<open>build\<close> raises when \<^verbatim>\<open>all([self._order, self._customer, self._channel])\<close> is false:
  a component is \<^verbatim>\<open>None\<close>, or the channel is the empty string. An \<^verbatim>\<open>Order\<close> or a
  \<^verbatim>\<open>Customer\<close> is always true.
\<close>

definition missing_message_data_msg :: pystr where
  "missing_message_data_msg = py ''Faltan datos para construir el mensaje''"

definition MessageBuilder_build :: "'f runtime \<Rightarrow> 'f MessageBuilder \<Rightarrow> error + pystr" where
  "MessageBuilder_build rt b =
     (case (mb_order b, mb_customer b, mb_channel b) of
        (Some ord, Some c, Some ch) \<Rightarrow>
          if ch = [] then Inl (ValueError missing_message_data_msg)
          else Inr (personalize (apply_template rt c ord ch))
      | _ \<Rightarrow> Inl (ValueError missing_message_data_msg))"

definition save :: "Notification list \<Rightarrow> Notification \<Rightarrow> Notification list" where
  "save storage n = storage @ [n]"

definition find_by_order :: "Notification list \<Rightarrow> pystr \<Rightarrow> Notification list" where
  "find_by_order storage oid = filter (\<lambda>n. notif_order_id n = oid) storage"

record 'f NotificationManager =
  factory :: "pystr \<rightharpoonup> notifier"
  message_builder :: "'f MessageBuilder"
  repository :: "Notification list"

definition NotificationManager_init :: "'f NotificationManager" where
  "NotificationManager_init =
     \<lparr>factory = NotificationFactory_init, message_builder = MessageBuilder_init, repository = []\<rparr>"

definition no_contact_msg :: "pystr \<Rightarrow> pystr" where
  "no_contact_msg ch =
     py ''No se encontr'' @ [243] @ py '' informaci'' @ [243] @
     py ''n de contacto para el canal '' @ ch"

text \<open>
  \<^verbatim>\<open>_create_notification\<close>. The setters mutate the manager's builder before anything can
  raise, so the builder is returned in both outcomes. \<open>stamp\<close> holds the two clock
  readings of the \<^verbatim>\<open>Notification\<close> constructor.
\<close>

definition create_notification ::
  "'f runtime \<Rightarrow> pystr \<times> pystr \<Rightarrow> 'f MessageBuilder \<Rightarrow> 'f Order \<Rightarrow> pystr \<Rightarrow>
     'f MessageBuilder \<times> (error + Notification)" where
  "create_notification rt stamp b ord ch =
     (let b' = set_channel (set_customer (set_order b ord) (customer ord)) ch in
      (b',
       ebind (MessageBuilder_build rt b') (\<lambda>msg.
         case get_contact_info (customer ord) ch of
           None \<Rightarrow> Inl (ValueError (no_contact_msg ch))
         | Some rcpt \<Rightarrow>
             Inr \<lparr>notification_id = py ''NOTIF-'' @ fst stamp, notif_type = ch, recipient = rcpt,
                  message = msg, notif_order_id = order_id ord, timestamp = snd stamp,
                  status = py ''pending'', error = None\<rparr>)))"

text \<open>
  What the manager prints for one channel: nothing more when the notifier returned true,
  the warning when it returned false, the error line when the \<^verbatim>\<open>try\<close> body raised.
\<close>

datatype outcome = Sent_ok | Send_failed pystr | Send_error pystr error

text \<open>
  One iteration of the loop of \<^verbatim>\<open>send_notifications\<close>: the \<^verbatim>\<open>try\<close> body, and the
  \<^verbatim>\<open>except Exception\<close> that swallows whatever it raises. The notification is saved only
  when creation, lookup and \<^verbatim>\<open>send\<close> all returned.
\<close>

definition send_one ::
  "'f runtime \<Rightarrow> pystr \<times> pystr \<Rightarrow> 'f NotificationManager \<Rightarrow> 'f Order \<Rightarrow> pystr \<Rightarrow>
     'f NotificationManager \<times> outcome" where
  "send_one rt stamp m ord ch =
     (let (b', created) = create_notification rt stamp (message_builder m) ord ch;
          m' = m\<lparr>message_builder := b'\<rparr>
      in case ebind created (\<lambda>n.
              ebind (create_notifier (factory m') ch) (\<lambda>notifier. send notifier n)) of
           Inl e \<Rightarrow> (m', Send_error ch e)
         | Inr (success, n') \<Rightarrow>
             (m'\<lparr>repository := save (repository m') n'\<rparr>,
              if success then Sent_ok else Send_failed ch))"

text \<open>
  \<^verbatim>\<open>send_notifications\<close>: the channels in order; \<open>clk i\<close> is the clock as the channel at
  position \<open>i\<close> reads it. Returned with the manager is what was printed per channel.
\<close>

fun send_loop ::
  "'f runtime \<Rightarrow> (nat \<Rightarrow> pystr \<times> pystr) \<Rightarrow> nat \<Rightarrow> 'f NotificationManager \<Rightarrow> 'f Order \<Rightarrow>
     pystr list \<Rightarrow> 'f NotificationManager \<times> outcome list" where
  "send_loop rt clk i m ord [] = (m, [])"
| "send_loop rt clk i m ord (ch # chs) =
     (let (m', out) = send_one rt (clk i) m ord ch;
          (m'', outs) = send_loop rt clk (Suc i) m' ord chs
      in (m'', out # outs))"

definition send_notifications ::
  "'f runtime \<Rightarrow> (nat \<Rightarrow> pystr \<times> pystr) \<Rightarrow> 'f NotificationManager \<Rightarrow> 'f Order \<Rightarrow>
     pystr list \<Rightarrow> 'f NotificationManager \<times> outcome list" where
  "send_notifications rt clk m ord channels = send_loop rt clk 0 m ord channels"


section \<open>gestor\_documentos.py: reports and their generators\<close>

text \<open>
  \<^verbatim>\<open>Report\<close>. \<open>report_type\<close> is the attribute \<^verbatim>\<open>type\<close>; \<open>report_timestamp\<close> is the clock
  reading of the constructor, as \<^verbatim>\<open>strftime("%Y-%m-%d %H:%M:%S")\<close> renders it, the only
  way the code reads it.
\<close>

record 'f Report =
  content :: pystr
  report_type :: pystr
  format :: pystr
  report_timestamp :: pystr
  metadata :: "'f dict"

text \<open>
  The two clock readings of one generation: the generator's own, rendered into the
  content, and the one of the \<^verbatim>\<open>Report\<close> constructor.
\<close>

record clock =
  t_generate :: pystr
  t_report :: pystr

definition get_content :: "'f Report \<Rightarrow> pystr" where
  "get_content r = content r"

text \<open>
  \<^verbatim>\<open>get_metadata\<close>: the items of \<^verbatim>\<open>self.metadata\<close> come last in the literal and so override
  the three fixed keys; in a list of items read with \<open>map_of\<close> the first item wins.
\<close>

definition get_metadata :: "'f Report \<Rightarrow> 'f dict" where
  "get_metadata r =
     metadata r @
     [(py ''type'', PStr (report_type r)), (py ''format'', PStr (format r)),
      (py ''timestamp'', PStr (report_timestamp r))]"

text \<open>The four lines every generator starts its content with, under its own title.\<close>

definition report_header :: "pystr \<Rightarrow> pystr \<Rightarrow> pystr" where
  "report_header title ts =
     replicate 60 61 @ [10] @ title @ [10] @ replicate 60 61 @ [10] @
     py ''Fecha de generaci'' @ [243] @ py ''n: '' @ ts @ [10, 10]"

text \<open>
  \<^verbatim>\<open>sum(item[key] for item in items)\<close>: the generator expression is consumed lazily, so
  each item is subscripted and added before the next one is looked at.
\<close>

fun sum_field :: "'f runtime \<Rightarrow> pystr \<Rightarrow> 'f pyval \<Rightarrow> 'f pyval list \<Rightarrow> error + 'f pyval" where
  "sum_field rt key acc [] = Inr acc"
| "sum_field rt key acc (item # items) =
     ebind (py_getitem item key) (\<lambda>v.
     ebind (py_add rt acc v) (\<lambda>acc'. sum_field rt key acc' items))"

definition sales_calculate_totals :: "'f runtime \<Rightarrow> 'f pyval \<Rightarrow> error + 'f pyval" where
  "sales_calculate_totals rt sales =
     ebind (py_iter sales) (sum_field rt (py ''amount'') (PInt 0))"

fun sales_detail_lines :: "'f runtime \<Rightarrow> 'f pyval list \<Rightarrow> error + pystr" where
  "sales_detail_lines rt [] = Inr []"
| "sales_detail_lines rt (sale # sales) =
     ebind (py_getitem sale (py ''product'')) (\<lambda>product.
     ebind (py_getitem sale (py ''amount'')) (\<lambda>amount.
     ebind (format_2f rt amount) (\<lambda>amount_s.
     ebind (sales_detail_lines rt sales) (\<lambda>rest.
       Inr (py ''  '' @ [8226] @ py '' Producto: '' @ py_str rt product @ py '' - $'' @
            amount_s @ [10] @ rest)))))"

definition format_sales_detail :: "'f runtime \<Rightarrow> 'f pyval \<Rightarrow> error + pystr" where
  "format_sales_detail rt sales =
     ebind (py_iter sales) (\<lambda>items.
     ebind (sales_detail_lines rt items) (\<lambda>ls.
       Inr (py ''Detalle de ventas:'' @ [10] @ replicate 60 45 @ [10] @ ls)))"

definition SalesReportGenerator_generate_report ::
  "'f runtime \<Rightarrow> clock \<Rightarrow> 'f dict \<Rightarrow> error + 'f Report" where
  "SalesReportGenerator_generate_report rt clk data =
     ebind (py_getitem (PDict data) (py ''sales'')) (\<lambda>sales.
     ebind (sales_calculate_totals rt sales) (\<lambda>total_sales.
     ebind (format_2f rt total_sales) (\<lambda>total_s.
     ebind (py_len sales) (\<lambda>n.
     ebind (py_getitem (PDict data) (py ''period'')) (\<lambda>period.
     ebind (format_sales_detail rt sales) (\<lambda>detail.
       Inr \<lparr>content =
              report_header (py ''           REPORTE DE VENTAS'') (t_generate clk) @
              py ''Total de ventas: $'' @ total_s @ [10] @
              py ''N'' @ [250] @ py ''mero de transacciones: '' @ str_int (int n) @ [10] @
              py ''Periodo: '' @ py_str rt period @ [10, 10] @
              detail,
            report_type = py ''sales'', format = py ''raw'',
            report_timestamp = t_report clk,
            metadata = [(py ''period'', period)]\<rparr>))))))"

definition inventory_calculate_totals :: "'f runtime \<Rightarrow> 'f pyval \<Rightarrow> error + 'f pyval" where
  "inventory_calculate_totals rt items =
     ebind (py_iter items) (sum_field rt (py ''quantity'') (PInt 0))"

text \<open>
  \<^verbatim>\<open>_group_by_category\<close>: the dictionary it builds is the list of its items in insertion
  order, each category with the items filed under it.
\<close>

definition file_under ::
  "'f runtime \<Rightarrow> ('f pyval \<times> 'f pyval list) list \<Rightarrow> 'f pyval \<Rightarrow> 'f pyval \<Rightarrow>
     ('f pyval \<times> 'f pyval list) list" where
  "file_under rt categories cat item =
     (if list_ex (\<lambda>kv. py_key_eq rt (fst kv) cat) categories
      then map (\<lambda>kv. if py_key_eq rt (fst kv) cat then (fst kv, snd kv @ [item]) else kv) categories
      else categories @ [(cat, [item])])"

fun group_items ::
  "'f runtime \<Rightarrow> ('f pyval \<times> 'f pyval list) list \<Rightarrow> 'f pyval list \<Rightarrow>
     error + ('f pyval \<times> 'f pyval list) list" where
  "group_items rt categories [] = Inr categories"
| "group_items rt categories (item # items) =
     ebind (py_getitem item (py ''category'')) (\<lambda>cat.
       if \<not> hashable cat then Inl TypeError
       else group_items rt (file_under rt categories cat item) items)"

definition group_by_category ::
  "'f runtime \<Rightarrow> 'f pyval \<Rightarrow> error + ('f pyval \<times> 'f pyval list) list" where
  "group_by_category rt items = ebind (py_iter items) (group_items rt [])"

fun inventory_lines :: "'f runtime \<Rightarrow> 'f pyval list \<Rightarrow> error + pystr" where
  "inventory_lines rt [] = Inr []"
| "inventory_lines rt (item # items) =
     ebind (py_getitem item (py ''name'')) (\<lambda>nm.
     ebind (py_getitem item (py ''category'')) (\<lambda>cat.
     ebind (py_getitem item (py ''quantity'')) (\<lambda>qty.
     ebind (inventory_lines rt items) (\<lambda>rest.
       Inr (py ''  '' @ [8226] @ py '' '' @ py_str rt nm @ py '' ('' @ py_str rt cat @
            py ''): '' @ py_str rt qty @ py '' unidades'' @ [10] @ rest)))))"

definition InventoryReportGenerator_generate_report ::
  "'f runtime \<Rightarrow> clock \<Rightarrow> 'f dict \<Rightarrow> error + 'f Report" where
  "InventoryReportGenerator_generate_report rt clk data =
     ebind (py_getitem (PDict data) (py ''items'')) (\<lambda>items.
     ebind (inventory_calculate_totals rt items) (\<lambda>total_items.
     ebind (group_by_category rt items) (\<lambda>categories.
     ebind (py_iter items) (\<lambda>its.
     ebind (inventory_lines rt its) (\<lambda>ls.
       Inr \<lparr>content =
              report_header (py ''           REPORTE DE INVENTARIO'') (t_generate clk) @
              py ''Total de productos: '' @ py_str rt total_items @ [10] @
              py ''Categor'' @ [237] @ py ''as: '' @ str_int (int (length categories)) @ [10, 10] @
              py ''Inventario actual:'' @ [10] @ replicate 60 45 @ [10] @
              ls,
            report_type = py ''inventory'', format = py ''raw'',
            report_timestamp = t_report clk,
            metadata = [(py ''total_items'', total_items)]\<rparr>)))))"

definition calculate_balance :: "'f runtime \<Rightarrow> 'f pyval \<Rightarrow> 'f pyval \<Rightarrow> error + 'f pyval" where
  "calculate_balance rt income expenses = py_sub rt income expenses"

definition FinancialReportGenerator_generate_report ::
  "'f runtime \<Rightarrow> clock \<Rightarrow> 'f dict \<Rightarrow> error + 'f Report" where
  "FinancialReportGenerator_generate_report rt clk data =
     ebind (py_getitem (PDict data) (py ''income'')) (\<lambda>income.
     ebind (py_getitem (PDict data) (py ''expenses'')) (\<lambda>expenses.
     ebind (calculate_balance rt income expenses) (\<lambda>balance.
     ebind (format_2f rt income) (\<lambda>income_s.
     ebind (format_2f rt expenses) (\<lambda>expenses_s.
     ebind (format_2f rt balance) (\<lambda>balance_s.
       Inr \<lparr>content =
              report_header (py ''           REPORTE FINANCIERO'') (t_generate clk) @
              py ''Ingresos: $'' @ income_s @ [10] @
              py ''Gastos: $'' @ expenses_s @ [10] @
              py ''Balance: $'' @ balance_s @ [10],
            report_type = py ''financial'', format = py ''raw'',
            report_timestamp = t_report clk,
            metadata = [(py ''balance'', balance)]\<rparr>))))))"

text \<open>
  A generator instance: one of the three classes, or one registered from outside, which
  is its \<^verbatim>\<open>generate_report\<close>.
\<close>

datatype 'f generator =
    SalesReportGenerator
  | InventoryReportGenerator
  | FinancialReportGenerator
  | CustomGenerator "'f dict \<Rightarrow> error + 'f Report"

fun generate_report :: "'f runtime \<Rightarrow> clock \<Rightarrow> 'f generator \<Rightarrow> 'f dict \<Rightarrow> error + 'f Report" where
  "generate_report rt clk SalesReportGenerator data = SalesReportGenerator_generate_report rt clk data"
| "generate_report rt clk InventoryReportGenerator data = InventoryReportGenerator_generate_report rt clk data"
| "generate_report rt clk FinancialReportGenerator data = FinancialReportGenerator_generate_report rt clk data"
| "generate_report rt clk (CustomGenerator g) data = g data"

section \<open>gestor\_documentos.py: formats, deliveries, factory, builder, system\<close>

datatype formatter = PDFFormatter | ExcelFormatter | HTMLFormatter

fun format_content :: "formatter \<Rightarrow> pystr \<Rightarrow> pystr" where
  "format_content PDFFormatter c = py ''[PDF FORMAT]'' @ [10] @ c @ [10] @ py ''[END PDF]''"
| "format_content ExcelFormatter c = py ''[EXCEL FORMAT]'' @ [10] @ c @ [10] @ py ''[END EXCEL]''"
| "format_content HTMLFormatter c = py ''<html><body><pre>'' @ c @ py ''</pre></body></html>''"

text \<open>
  A delivery instance with the configuration its constructor kept: the constructors
  replace a false configuration (\<^verbatim>\<open>None\<close> or an empty dictionary) by the default.
\<close>

datatype 'f delivery =
    EmailDelivery "'f dict"
  | DownloadDelivery pystr
  | CloudDelivery "'f dict"

definition EmailDelivery_init :: "'f dict option \<Rightarrow> 'f delivery" where
  "EmailDelivery_init smtp_config =
     (case smtp_config of
        Some (kv # kvs) \<Rightarrow> EmailDelivery (kv # kvs)
      | _ \<Rightarrow> EmailDelivery [(py ''recipient'', PStr (py ''admin@company.com''))])"

definition DownloadDelivery_init :: "'f delivery" where
  "DownloadDelivery_init = DownloadDelivery (py ''./reports'')"

definition CloudDelivery_init :: "'f dict option \<Rightarrow> 'f delivery" where
  "CloudDelivery_init cloud_config =
     (case cloud_config of
        Some (kv # kvs) \<Rightarrow> CloudDelivery (kv # kvs)
      | _ \<Rightarrow> CloudDelivery [(py ''base_url'', PStr (py ''https://cloud.company.com''))])"

text \<open>
  \<^verbatim>\<open>deliver\<close> prints and returns \<^verbatim>\<open>True\<close>; what can raise is a subscript in what it
  prints.
\<close>

fun deliver :: "'f delivery \<Rightarrow> pystr \<Rightarrow> 'f dict \<Rightarrow> error + bool" where
  "deliver (EmailDelivery smtp_config) report md =
     ebind (py_getitem (PDict smtp_config) (py ''recipient'')) (\<lambda>_. Inr True)"
| "deliver (DownloadDelivery download_path) report md =
     ebind (py_getitem (PDict md) (py ''type'')) (\<lambda>_.
     ebind (py_getitem (PDict md) (py ''format'')) (\<lambda>_. Inr True))"
| "deliver (CloudDelivery cloud_config) report md =
     ebind (py_getitem (PDict cloud_config) (py ''base_url'')) (\<lambda>_.
     ebind (py_getitem (PDict md) (py ''type'')) (\<lambda>_. Inr True))"

text \<open>
  \<^verbatim>\<open>ReportFactory\<close> is its dictionary \<^verbatim>\<open>_generators\<close>; as in the notification factory,
  \<^verbatim>\<open>not generator\<close> holds exactly when \<^verbatim>\<open>dict.get\<close> gave \<^verbatim>\<open>None\<close>.
\<close>

definition ReportFactory_init :: "pystr \<rightharpoonup> 'f generator" where
  "ReportFactory_init =
     [py ''sales'' \<mapsto> SalesReportGenerator, py ''inventory'' \<mapsto> InventoryReportGenerator,
      py ''financial'' \<mapsto> FinancialReportGenerator]"

definition unsupported_report_msg :: "pystr \<Rightarrow> pystr" where
  "unsupported_report_msg t = py ''Tipo de reporte no soportado: '' @ t"

definition create_generator :: "(pystr \<rightharpoonup> 'g) \<Rightarrow> pystr \<Rightarrow> error + 'g" where
  "create_generator generators rtype =
     (case generators rtype of
        None \<Rightarrow> Inl (ValueError (unsupported_report_msg rtype))
      | Some g \<Rightarrow> Inr g)"


record 'f ReportBuilder =
  rb_generator :: "'f generator option"
  rb_formatter :: "formatter option"
  rb_delivery :: "'f delivery option"
  rb_data :: "'f dict option"

definition ReportBuilder_init :: "'f ReportBuilder" where
  "ReportBuilder_init =
     \<lparr>rb_generator = None, rb_formatter = None, rb_delivery = None, rb_data = None\<rparr>"

definition set_generator :: "'f ReportBuilder \<Rightarrow> 'f generator \<Rightarrow> 'f ReportBuilder" where
  "set_generator b g = b\<lparr>rb_generator := Some g\<rparr>"

definition set_formatter :: "'f ReportBuilder \<Rightarrow> formatter \<Rightarrow> 'f ReportBuilder" where
  "set_formatter b f = b\<lparr>rb_formatter := Some f\<rparr>"

definition set_delivery :: "'f ReportBuilder \<Rightarrow> 'f delivery \<Rightarrow> 'f ReportBuilder" where
  "set_delivery b d = b\<lparr>rb_delivery := Some d\<rparr>"

definition set_data :: "'f ReportBuilder \<Rightarrow> 'f dict \<Rightarrow> 'f ReportBuilder" where
  "set_data b data = b\<lparr>rb_data := Some data\<rparr>"

definition missing_components_msg :: pystr where
  "missing_components_msg = py ''Faltan componentes para construir el reporte''"

text \<open>
  \<^verbatim>\<open>build\<close> raises when \<^verbatim>\<open>all([...])\<close> of its four components is false: one of them is
  \<^verbatim>\<open>None\<close>, or the data is the empty dictionary. Otherwise it generates, formats,
  delivers (dropping the boolean) and stores the formatted text in the report.
\<close>

definition ReportBuilder_build :: "'f runtime \<Rightarrow> clock \<Rightarrow> 'f ReportBuilder \<Rightarrow> error + 'f Report" where
  "ReportBuilder_build rt clk b =
     (case (rb_generator b, rb_formatter b, rb_delivery b, rb_data b) of
        (Some g, Some f, Some d, Some data) \<Rightarrow>
          if data = [] then Inl (ValueError missing_components_msg)
          else
            ebind (generate_report rt clk g data) (\<lambda>report.
              let formatted_content = format_content f (get_content report) in
              ebind (deliver d formatted_content (get_metadata report)) (\<lambda>_.
                Inr (report\<lparr>content := formatted_content\<rparr>)))
      | _ \<Rightarrow> Inl (ValueError missing_components_msg))"

text \<open>One dictionary of \<^verbatim>\<open>report_history\<close>, with its four keys as fields.\<close>

record 'f HistoryEntry =
  entry_type :: pystr
  entry_format :: pystr
  entry_timestamp :: pystr
  entry_metadata :: "'f dict"

record 'f ReportSystem =
  report_factory :: "pystr \<rightharpoonup> 'f generator"
  builder :: "'f ReportBuilder"
  report_history :: "'f HistoryEntry list"
  format_strategies :: "pystr \<rightharpoonup> formatter"
  delivery_strategies :: "pystr \<rightharpoonup> 'f delivery"

definition ReportSystem_init :: "'f ReportSystem" where
  "ReportSystem_init =
     \<lparr>report_factory = ReportFactory_init,
      builder = ReportBuilder_init,
      report_history = [],
      format_strategies =
        [py ''pdf'' \<mapsto> PDFFormatter, py ''excel'' \<mapsto> ExcelFormatter, py ''html'' \<mapsto> HTMLFormatter],
      delivery_strategies =
        [py ''email'' \<mapsto> EmailDelivery_init None, py ''download'' \<mapsto> DownloadDelivery_init,
         py ''cloud'' \<mapsto> CloudDelivery_init None]\<rparr>"

definition log_report :: "'f ReportSystem \<Rightarrow> 'f Report \<Rightarrow> 'f ReportSystem" where
  "log_report s r =
     s\<lparr>report_history := report_history s @
        [\<lparr>entry_type = report_type r, entry_format = format r,
          entry_timestamp = report_timestamp r, entry_metadata = metadata r\<rparr>]\<rparr>"

definition unsupported_format_msg :: "pystr \<Rightarrow> pystr" where
  "unsupported_format_msg t = py ''Formato no soportado: '' @ t"

definition unsupported_delivery_msg :: "pystr \<Rightarrow> pystr" where
  "unsupported_delivery_msg t = py ''M'' @ [233] @ py ''todo de entrega no soportado: '' @ t"

text \<open>
  \<^verbatim>\<open>ReportSystem.generate_report\<close>: what it returns or raises, and the system afterwards.
  The three lookups come before the builder is touched; the history is written only
  after \<^verbatim>\<open>build\<close> has returned.
\<close>

definition ReportSystem_generate_report ::
  "'f runtime \<Rightarrow> clock \<Rightarrow> 'f ReportSystem \<Rightarrow> pystr \<Rightarrow> 'f dict \<Rightarrow> pystr \<Rightarrow> pystr \<Rightarrow>
     (error + 'f Report) \<times> 'f ReportSystem" where
  "ReportSystem_generate_report rt clk s rtype data output_format delivery_method =
     (case create_generator (report_factory s) rtype of
        Inl e \<Rightarrow> (Inl e, s)
      | Inr g \<Rightarrow>
          (case format_strategies s output_format of
             None \<Rightarrow> (Inl (ValueError (unsupported_format_msg output_format)), s)
           | Some f \<Rightarrow>
               (case delivery_strategies s delivery_method of
                  None \<Rightarrow> (Inl (ValueError (unsupported_delivery_msg delivery_method)), s)
                | Some d \<Rightarrow>
                    (let b = set_data (set_delivery (set_formatter (set_generator (builder s) g) f) d) data;
                         s' = s\<lparr>builder := b\<rparr>
                     in case ReportBuilder_build rt clk b of
                          Inl e \<Rightarrow> (Inl e, s')
                        | Inr report \<Rightarrow> (Inr report, log_report s' report)))))"

definition get_report_history :: "'f ReportSystem \<Rightarrow> 'f HistoryEntry list" where
  "get_report_history s = report_history s"

section \<open>Notions the statements are worded with\<close>

text \<open>
  The sum of a list of values is Python's \<^verbatim>\<open>sum\<close>: the values added one after the other,
  from the integer 0.
\<close>

fun py_sum_from :: "'f runtime \<Rightarrow> 'f pyval \<Rightarrow> 'f pyval list \<Rightarrow> error + 'f pyval" where
  "py_sum_from rt acc [] = Inr acc"
| "py_sum_from rt acc (v # vs) = ebind (py_add rt acc v) (\<lambda>acc'. py_sum_from rt acc' vs)"

definition py_sum :: "'f runtime \<Rightarrow> 'f pyval list \<Rightarrow> error + 'f pyval" where
  "py_sum rt vs = py_sum_from rt (PInt 0) vs"

text \<open>The line of the sales detail for a product and the rendering of its amount.\<close>

definition sale_line :: "'f runtime \<Rightarrow> 'f pyval \<Rightarrow> pystr \<Rightarrow> pystr" where
  "sale_line rt product amount_s =
     py ''  '' @ [8226] @ py '' Producto: '' @ py_str rt product @ py '' - $'' @ amount_s @ [10]"

text \<open>The line of the inventory listing for a name, a category and a quantity.\<close>

definition inventory_line :: "'f runtime \<Rightarrow> 'f pyval \<Rightarrow> 'f pyval \<Rightarrow> 'f pyval \<Rightarrow> pystr" where
  "inventory_line rt nm cat qty =
     py ''  '' @ [8226] @ py '' '' @ py_str rt nm @ py '' ('' @ py_str rt cat @
     py ''): '' @ py_str rt qty @ py '' unidades'' @ [10]"

text \<open>
  The payload of the first report of the module's own run: four sales, with their amounts
  as parameters.
\<close>

definition sales_data :: "'f \<Rightarrow> 'f \<Rightarrow> 'f \<Rightarrow> 'f \<Rightarrow> 'f dict" where
  "sales_data a1 a2 a3 a4 =
     [(py ''period'', PStr (py ''Enero 2024'')),
      (py ''sales'', PList
        [PDict [(py ''product'', PStr (py ''Laptop HP'')), (py ''amount'', PFloat a1)],
         PDict [(py ''product'', PStr (py ''Mouse Logitech'')), (py ''amount'', PFloat a2)],
         PDict [(py ''product'', PStr (py ''Teclado Mec'' @ [225] @ py ''nico'')), (py ''amount'', PFloat a3)],
         PDict [(py ''product'', PStr (py ''Monitor LG 24'' @ [34])), (py ''amount'', PFloat a4)]])]"

section \<open>A runtime and a clock for the examples\<close>

text \<open>
  The examples below run on floats that are multiples of 0.01, held as their number of
  hundredths, with exact sums and differences; \<^verbatim>\<open>format(x, '.2f')\<close> and \<^verbatim>\<open>str(x)\<close> of such
  a float are its decimal digits. No example renders a list or a dictionary, whose
  \<^verbatim>\<open>repr\<close> is left empty here.
\<close>

definition two_digits :: "nat \<Rightarrow> pystr" where
  "two_digits n = [48 + n div 10, 48 + n mod 10]"

definition hundredths_fmt2 :: "int \<Rightarrow> pystr" where
  "hundredths_fmt2 c =
     (if c < 0 then [45] else []) @ digits (nat \<bar>c\<bar> div 100) @ [46] @ two_digits (nat \<bar>c\<bar> mod 100)"

definition hundredths_str :: "int \<Rightarrow> pystr" where
  "hundredths_str c =
     (if c < 0 then [45] else []) @ digits (nat \<bar>c\<bar> div 100) @ [46] @
     (if nat \<bar>c\<bar> mod 10 = 0 then [48 + nat \<bar>c\<bar> mod 100 div 10] else two_digits (nat \<bar>c\<bar> mod 100))"

definition example_runtime :: "int runtime" where
  "example_runtime =
     \<lparr>f_of_int = (\<lambda>i. 100 * i), f_add = (+), f_sub = (-), f_eq = (=),
      f_eq_int = (\<lambda>x i. x = 100 * i), f_fmt2 = hundredths_fmt2, f_str = hundredths_str,
      repr_container = (\<lambda>v. [])\<rparr>"

definition example_clock :: clock where
  "example_clock = \<lparr>t_generate = py ''2024-01-31 10:00:00'', t_report = py ''2024-01-31 10:00:01''\<rparr>"

section \<open>Basic facts about strings\<close>

lemma py_eq_iff [simp]: "py a = py b \<longleftrightarrow> a = b"
  by (simp add: py_def inj_of_char)

lemma py_Nil [simp]: "py [] = []"
  by (simp add: py_def)

lemma py_eq_Nil [simp]: "py a = [] \<longleftrightarrow> a = []" "[] = py a \<longleftrightarrow> a = []"
  by (auto simp: py_def)

lemma length_py [simp]: "length (py a) = length a"
  by (simp add: py_def)


lemma ebind_Inr [simp]: "ebind (Inr x) f = f x"
  by (simp add: ebind_def)

lemma ebind_Inl [simp]: "ebind (Inl e) f = Inl e"
  by (simp add: ebind_def)

section \<open>Facts about the notification loop\<close>



lemma send_loop_Cons:
  "send_loop rt clk i m ord (ch # chs) =
     (fst (send_loop rt clk (Suc i) (fst (send_one rt (clk i) m ord ch)) ord chs),
      snd (send_one rt (clk i) m ord ch) #
      snd (send_loop rt clk (Suc i) (fst (send_one rt (clk i) m ord ch)) ord chs))"
  by (simp split: prod.splits)


lemma send_loop_length: "length (snd (send_loop rt clk i m ord chs)) = length chs"
  by (induction chs arbitrary: i m) (simp_all add: send_loop_Cons del: send_loop.simps(2))



section \<open>Facts about the generators\<close>

lemma sum_field_py_sum_from:
  "map (\<lambda>it. py_getitem it key) items = map Inr vs \<Longrightarrow>
     sum_field rt key acc items = py_sum_from rt acc vs"
proof (induction items arbitrary: acc vs)
  case Nil
  then show ?case by simp
next
  case (Cons it items)
  then obtain v vs' where vs: "vs = v # vs'" "py_getitem it key = Inr v"
    "map (\<lambda>it. py_getitem it key) items = map Inr vs'"
    by (cases vs) auto
  show ?case
    using Cons.IH [OF vs(3)] vs(1,2) by (simp add: ebind_def split: sum.splits)
qed

lemma sales_detail_lines_eq:
  "map (\<lambda>it. py_getitem it (py ''product'')) items = map Inr products \<Longrightarrow>
   map (\<lambda>it. py_getitem it (py ''amount'')) items = map Inr amounts \<Longrightarrow>
   map (format_2f rt) amounts = map Inr amount_strs \<Longrightarrow>
     sales_detail_lines rt items = Inr (concat (map2 (sale_line rt) products amount_strs))"
proof (induction items arbitrary: products amounts amount_strs)
  case Nil
  then show ?case by simp
next
  case (Cons it items)
  from Cons.prems(1) obtain p ps where ps: "products = p # ps" "py_getitem it (py ''product'') = Inr p"
    "map (\<lambda>it. py_getitem it (py ''product'')) items = map Inr ps"
    by (cases products) auto
  from Cons.prems(2) obtain a as where as: "amounts = a # as" "py_getitem it (py ''amount'') = Inr a"
    "map (\<lambda>it. py_getitem it (py ''amount'')) items = map Inr as"
    by (cases amounts) auto
  from Cons.prems(3) as(1) obtain t ts where ts: "amount_strs = t # ts" "format_2f rt a = Inr t"
    "map (format_2f rt) as = map Inr ts"
    by (cases amount_strs) auto
  show ?case
    using Cons.IH [OF ps(3) as(3) ts(3)] ps(1,2) as(1,2) ts(1,2)
    by (simp add: sale_line_def)
qed

lemma py_sum_from_ints:
  "py_sum_from rt (PInt k) (map PInt is) = Inr (PInt (k + sum_list is))"
  by (induction "is" arbitrary: k) (simp_all add: add.assoc)


lemma float_of_int_0: "float_of_int rt 0 = Inr (f_of_int rt 0)"
  by (simp add: float_of_int_def)



lemma sales_report_eq:
  assumes "map_of data (py ''sales'') = Some (PList items)"
    and "map_of data (py ''period'') = Some period"
    and "map (\<lambda>it. py_getitem it (py ''product'')) items = map Inr products"
    and "map (\<lambda>it. py_getitem it (py ''amount'')) items = map Inr amounts"
    and "map (format_2f rt) amounts = map Inr amount_strs"
    and "py_sum rt amounts = Inr tot"
    and "format_2f rt tot = Inr total_s"
  shows "SalesReportGenerator_generate_report rt clk data =
      Inr \<lparr>content =
              report_header (py ''           REPORTE DE VENTAS'') (t_generate clk) @
              py ''Total de ventas: $'' @ total_s @ [10] @
              py ''N'' @ [250] @ py ''mero de transacciones: '' @ str_int (int (length items)) @ [10] @
              py ''Periodo: '' @ py_str rt period @ [10, 10] @
              py ''Detalle de ventas:'' @ [10] @ replicate 60 45 @ [10] @
              concat (map2 (sale_line rt) products amount_strs),
            report_type = py ''sales'', format = py ''raw'',
            report_timestamp = t_report clk,
            metadata = [(py ''period'', period)]\<rparr>"
proof -
  have stot: "sales_calculate_totals rt (PList items) = Inr tot"
    using sum_field_py_sum_from [OF assms(4), of rt "PInt 0"] assms(6)
    by (simp add: sales_calculate_totals_def py_sum_def)
  have det: "format_sales_detail rt (PList items) =
      Inr (py ''Detalle de ventas:'' @ [10] @ replicate 60 45 @ [10] @
           concat (map2 (sale_line rt) products amount_strs))"
    using sales_detail_lines_eq [OF assms(3,4,5)] by (simp add: format_sales_detail_def)
  show ?thesis
    using assms(1,2,7) stot det by (simp add: SalesReportGenerator_generate_report_def)
qed


lemma file_under_keys:
  assumes "map fst acc = map PStr ks"
  shows "map fst (file_under rt acc (PStr c) item) = map PStr (if c \<in> set ks then ks else ks @ [c])"
proof -
  have "list_ex (\<lambda>kv. py_key_eq rt (fst kv) (PStr c)) acc \<longleftrightarrow>
      (\<exists>k\<in>set (map fst acc). py_key_eq rt k (PStr c))"
    by (auto simp: list_ex_iff)
  also have "\<dots> \<longleftrightarrow> c \<in> set ks"
    unfolding assms by auto
  finally have ex: "list_ex (\<lambda>kv. py_key_eq rt (fst kv) (PStr c)) acc \<longleftrightarrow> c \<in> set ks" .
  have same: "map fst (map (\<lambda>kv. if py_key_eq rt (fst kv) (PStr c) then (fst kv, snd kv @ [item]) else kv) acc) =
      map fst acc"
    by (induction acc) auto
  show ?thesis
    using ex same assms by (simp add: file_under_def)
qed

lemma group_items_strs:
  assumes "map (\<lambda>it. py_getitem it (py ''category'')) items = map (\<lambda>c. Inr (PStr c)) cats"
    and "map fst acc = map PStr ks" and "distinct ks"
  shows "\<exists>res ks'. group_items rt acc items = Inr res \<and> map fst res = map PStr ks' \<and>
      distinct ks' \<and> set ks' = set ks \<union> set cats"
  using assms
proof (induction items arbitrary: cats acc ks)
  case Nil
  then show ?case by auto
next
  case (Cons it items)
  from Cons.prems(1) obtain c cs where cs: "cats = c # cs"
    "py_getitem it (py ''category'') = Inr (PStr c)"
    "map (\<lambda>it. py_getitem it (py ''category'')) items = map (\<lambda>c. Inr (PStr c)) cs"
    by (cases cats) auto
  let ?ks = "if c \<in> set ks then ks else ks @ [c]"
  have keys: "map fst (file_under rt acc (PStr c) it) = map PStr ?ks"
    by (rule file_under_keys [OF Cons.prems(2)])
  have dist: "distinct ?ks"
    using Cons.prems(3) by simp
  from Cons.IH [OF cs(3) keys dist] obtain res ks' where
    res: "group_items rt (file_under rt acc (PStr c) it) items = Inr res"
      "map fst res = map PStr ks'" "distinct ks'" "set ks' = set ?ks \<union> set cs"
    by blast
  have "group_items rt acc (it # items) = Inr res"
    using cs(2) res(1) by simp
  moreover have "set ks' = set ks \<union> set cats"
    using res(4) cs(1) by auto
  ultimately show ?case using res(2,3) by blast
qed

lemma group_by_category_count:
  assumes "map (\<lambda>it. py_getitem it (py ''category'')) items = map (\<lambda>c. Inr (PStr c)) cats"
  shows "\<exists>res. group_by_category rt (PList items) = Inr res \<and> length res = card (set cats)"
proof -
  from group_items_strs [OF assms, of "[]" "[]" rt] obtain res ks' where
    res: "group_items rt [] items = Inr res" "map fst res = map PStr ks'" "distinct ks'"
      "set ks' = set cats"
    by auto
  have "length res = length ks'"
    using res(2) by (metis length_map)
  also have "\<dots> = card (set cats)"
    using res(3,4) by (metis distinct_card)
  finally show ?thesis using res(1) by (simp add: group_by_category_def)
qed

lemma inventory_lines_eq:
  "map (\<lambda>it. py_getitem it (py ''name'')) items = map Inr names \<Longrightarrow>
   map (\<lambda>it. py_getitem it (py ''category'')) items = map Inr cats \<Longrightarrow>
   map (\<lambda>it. py_getitem it (py ''quantity'')) items = map Inr qtys \<Longrightarrow>
     inventory_lines rt items =
       Inr (concat (map (\<lambda>(n, c, q). inventory_line rt n c q) (zip names (zip cats qtys))))"
proof (induction items arbitrary: names cats qtys)
  case Nil
  then show ?case by simp
next
  case (Cons it items)
  from Cons.prems(1) obtain n ns where ns: "names = n # ns" "py_getitem it (py ''name'') = Inr n"
    "map (\<lambda>it. py_getitem it (py ''name'')) items = map Inr ns"
    by (cases names) auto
  from Cons.prems(2) obtain c cs where cs: "cats = c # cs" "py_getitem it (py ''category'') = Inr c"
    "map (\<lambda>it. py_getitem it (py ''category'')) items = map Inr cs"
    by (cases cats) auto
  from Cons.prems(3) obtain q qs where qs: "qtys = q # qs" "py_getitem it (py ''quantity'') = Inr q"
    "map (\<lambda>it. py_getitem it (py ''quantity'')) items = map Inr qs"
    by (cases qtys) auto
  show ?case
    using Cons.IH [OF ns(3) cs(3) qs(3)] ns(1,2) cs(1,2) qs(1,2)
    by (simp add: inventory_line_def)
qed

lemma generator_error_propagates:
  assumes "report_factory s rtype = Some g" and "format_strategies s fmt = Some f"
    and "delivery_strategies s dm = Some d" and "data \<noteq> []"
    and "generate_report rt clk g data = Inl e"
  shows "ReportSystem_generate_report rt clk s rtype data fmt dm =
      (Inl e, s\<lparr>builder := set_data (set_delivery (set_formatter (set_generator (builder s) g) f) d) data\<rparr>)"
  using assms
  by (simp add: ReportSystem_generate_report_def create_generator_def ReportBuilder_build_def
      set_data_def set_delivery_def set_formatter_def set_generator_def)

lemma deliver_default_email: "deliver (EmailDelivery_init None) c md = Inr True"
  by (simp add: EmailDelivery_init_def)

section \<open>The claims\<close>

subsection \<open>The notifiers\<close>

text \<open>
  C5. \<^verbatim>\<open>SMSNotifier.send\<close> returns true exactly when the recipient has more than ten
  characters. A failure is not raised: the call returns false and leaves the
  notification marked \<^verbatim>\<open>failed\<close> with the error string; a success leaves it marked
  \<^verbatim>\<open>sent\<close>. The manager's call \<open>send SMSNotifier\<close> therefore always returns.
\<close>

theorem sms_send_length:
  "SMSNotifier_send n =
     (if length (recipient n) > 10 then (True, n\<lparr>status := py ''sent''\<rparr>)
      else (False, n\<lparr>status := py ''failed'', error := Some invalid_phone_msg\<rparr>)) \<and>
   send SMSNotifier n = Inr (SMSNotifier_send n)"
  by (auto simp: SMSNotifier_send_def validate_phone_def mark_as_sent_def mark_as_failed_def)

text \<open>The boundary: a recipient of eleven characters succeeds, one of ten fails.\<close>

theorem sms_send_length_witness:
  "SMSNotifier_send
     \<lparr>notification_id = py ''NOTIF-1'', notif_type = py ''sms'', recipient = py ''+3460012345'',
      message = py ''m'', notif_order_id = py ''ORD-001'', timestamp = py ''t'',
      status = py ''pending'', error = None\<rparr> =
   (True,
     \<lparr>notification_id = py ''NOTIF-1'', notif_type = py ''sms'', recipient = py ''+3460012345'',
      message = py ''m'', notif_order_id = py ''ORD-001'', timestamp = py ''t'',
      status = py ''sent'', error = None\<rparr>) \<and>
   SMSNotifier_send
     \<lparr>notification_id = py ''NOTIF-1'', notif_type = py ''sms'', recipient = py ''+346001234'',
      message = py ''m'', notif_order_id = py ''ORD-001'', timestamp = py ''t'',
      status = py ''pending'', error = None\<rparr> =
   (False,
     \<lparr>notification_id = py ''NOTIF-1'', notif_type = py ''sms'', recipient = py ''+346001234'',
      message = py ''m'', notif_order_id = py ''ORD-001'', timestamp = py ''t'',
      status = py ''failed'', error = Some invalid_phone_msg\<rparr>)"
  using
    sms_send_length [of "\<lparr>notification_id = py ''NOTIF-1'', notif_type = py ''sms'',
      recipient = py ''+3460012345'', message = py ''m'', notif_order_id = py ''ORD-001'',
      timestamp = py ''t'', status = py ''pending'', error = None\<rparr>"]
    sms_send_length [of "\<lparr>notification_id = py ''NOTIF-1'', notif_type = py ''sms'',
      recipient = py ''+346001234'', message = py ''m'', notif_order_id = py ''ORD-001'',
      timestamp = py ''t'', status = py ''pending'', error = None\<rparr>"]
  by simp

text \<open>
  C6. \<^verbatim>\<open>PushNotifier.send\<close> returns true, marking the notification \<^verbatim>\<open>sent\<close>, exactly when
  the recipient is \<^verbatim>\<open>DEVICE-\<close> followed by anything; otherwise it returns false and marks
  the notification \<^verbatim>\<open>failed\<close> with the invalid-device error. Neither case raises.
\<close>

theorem push_send_prefix:
  "PushNotifier_send n =
     (if \<exists>rest. recipient n = py ''DEVICE-'' @ rest then (True, n\<lparr>status := py ''sent''\<rparr>)
      else (False, n\<lparr>status := py ''failed'', error := Some invalid_device_msg\<rparr>)) \<and>
   send PushNotifier n = Inr (PushNotifier_send n)"
proof -
  have "startswith (recipient n) (py ''DEVICE-'') \<longleftrightarrow> (\<exists>rest. recipient n = py ''DEVICE-'' @ rest)"
    unfolding startswith_def
    by (metis append_eq_conv_conj)
  moreover have "startswith (recipient n) (py ''DEVICE-'') \<Longrightarrow> recipient n \<noteq> []"
    by (auto simp: startswith_def)
  ultimately show ?thesis
    by (auto simp: PushNotifier_send_def validate_device_def mark_as_sent_def mark_as_failed_def)
qed

theorem push_send_prefix_witness:
  "fst (PushNotifier_send
     \<lparr>notification_id = py ''NOTIF-1'', notif_type = py ''push'', recipient = py ''DEVICE-ABC-123'',
      message = py ''m'', notif_order_id = py ''ORD-001'', timestamp = py ''t'',
      status = py ''pending'', error = None\<rparr>) \<and>
   \<not> fst (PushNotifier_send
     \<lparr>notification_id = py ''NOTIF-1'', notif_type = py ''push'', recipient = py ''device-ABC-123'',
      message = py ''m'', notif_order_id = py ''ORD-001'', timestamp = py ''t'',
      status = py ''pending'', error = None\<rparr>)"
  using
    push_send_prefix [of "\<lparr>notification_id = py ''NOTIF-1'', notif_type = py ''push'',
      recipient = py ''DEVICE-ABC-123'', message = py ''m'', notif_order_id = py ''ORD-001'',
      timestamp = py ''t'', status = py ''pending'', error = None\<rparr>"]
    push_send_prefix [of "\<lparr>notification_id = py ''NOTIF-1'', notif_type = py ''push'',
      recipient = py ''device-ABC-123'', message = py ''m'', notif_order_id = py ''ORD-001'',
      timestamp = py ''t'', status = py ''pending'', error = None\<rparr>"]
  by (simp add: py_def)

subsection \<open>The registries\<close>


subsection \<open>The notification manager\<close>

text \<open>
  C4. With the three built-in notifiers registered, an order whose customer has an email,
  a phone of at most ten characters and a device identifier starting with \<^verbatim>\<open>DEVICE-\<close>,
  sent over \<^verbatim>\<open>['email', 'sms', 'push']\<close>, adds exactly three notifications to the
  repository, in the order of the channels: the email one \<^verbatim>\<open>sent\<close>, the sms one
  \<^verbatim>\<open>failed\<close>, the push one \<^verbatim>\<open>sent\<close>. The failure of sms is reported and the push
  notification is still attempted.
\<close>

theorem fanout_sms_failure:
  assumes "factory m (py ''email'') = Some EmailNotifier"
    and "factory m (py ''sms'') = Some SMSNotifier"
    and "factory m (py ''push'') = Some PushNotifier"
    and "email (customer ord) = Some e"
    and "phone (customer ord) = Some p"
    and "length p \<le> 10"
    and "device_id (customer ord) = Some (py ''DEVICE-'' @ d)"
  shows "repository (fst (send_notifications rt clk m ord [py ''email'', py ''sms'', py ''push''])) =
      repository m @
      [\<lparr>notification_id = py ''NOTIF-'' @ fst (clk 0), notif_type = py ''email'', recipient = e,
        message = apply_template rt (customer ord) ord (py ''email''),
        notif_order_id = order_id ord, timestamp = snd (clk 0),
        status = py ''sent'', error = None\<rparr>,
       \<lparr>notification_id = py ''NOTIF-'' @ fst (clk 1), notif_type = py ''sms'', recipient = p,
        message = apply_template rt (customer ord) ord (py ''sms''),
        notif_order_id = order_id ord, timestamp = snd (clk 1),
        status = py ''failed'', error = Some invalid_phone_msg\<rparr>,
       \<lparr>notification_id = py ''NOTIF-'' @ fst (clk 2), notif_type = py ''push'',
        recipient = py ''DEVICE-'' @ d,
        message = apply_template rt (customer ord) ord (py ''push''),
        notif_order_id = order_id ord, timestamp = snd (clk 2),
        status = py ''sent'', error = None\<rparr>] \<and>
    snd (send_notifications rt clk m ord [py ''email'', py ''sms'', py ''push'']) =
      [Sent_ok, Send_failed (py ''sms''), Sent_ok]"
proof -
  let ?b = "\<lambda>ch. set_channel (set_customer (set_order (message_builder m) ord) (customer ord)) ch"
  have one: "send_one rt st m0 ord (py ''email'') =
      (m0\<lparr>message_builder := set_channel (set_customer (set_order (message_builder m0) ord) (customer ord)) (py ''email''),
          repository := repository m0 @
           [\<lparr>notification_id = py ''NOTIF-'' @ fst st, notif_type = py ''email'', recipient = e,
        message = apply_template rt (customer ord) ord (py ''email''),
        notif_order_id = order_id ord, timestamp = snd st,
        status = py ''sent'', error = None\<rparr>]\<rparr>, Sent_ok)"
    if "factory m0 = factory m" for m0 st
    using assms that
    by (simp add: send_one_def create_notification_def Let_def ebind_def
      MessageBuilder_build_def set_channel_def set_customer_def set_order_def create_notifier_def
      get_contact_info_def personalize_def save_def EmailNotifier_send_def mark_as_sent_def)
  have two: "send_one rt st m0 ord (py ''sms'') =
      (m0\<lparr>message_builder := set_channel (set_customer (set_order (message_builder m0) ord) (customer ord)) (py ''sms''),
          repository := repository m0 @
           [\<lparr>notification_id = py ''NOTIF-'' @ fst st, notif_type = py ''sms'', recipient = p,
        message = apply_template rt (customer ord) ord (py ''sms''),
        notif_order_id = order_id ord, timestamp = snd st,
        status = py ''failed'', error = Some invalid_phone_msg\<rparr>]\<rparr>, Send_failed (py ''sms''))"
    if "factory m0 = factory m" for m0 st
    using assms that
    by (simp add: send_one_def create_notification_def Let_def ebind_def
      MessageBuilder_build_def set_channel_def set_customer_def set_order_def create_notifier_def
      get_contact_info_def personalize_def save_def SMSNotifier_send_def validate_phone_def
      mark_as_failed_def)
  have three: "send_one rt st m0 ord (py ''push'') =
      (m0\<lparr>message_builder := set_channel (set_customer (set_order (message_builder m0) ord) (customer ord)) (py ''push''),
          repository := repository m0 @
           [\<lparr>notification_id = py ''NOTIF-'' @ fst st, notif_type = py ''push'', recipient = py ''DEVICE-'' @ d,
        message = apply_template rt (customer ord) ord (py ''push''),
        notif_order_id = order_id ord, timestamp = snd st,
        status = py ''sent'', error = None\<rparr>]\<rparr>, Sent_ok)"
    if "factory m0 = factory m" for m0 st
    using assms that
    by (simp add: send_one_def create_notification_def Let_def ebind_def
      MessageBuilder_build_def set_channel_def set_customer_def set_order_def create_notifier_def
      get_contact_info_def personalize_def save_def PushNotifier_send_def validate_device_def
      startswith_def mark_as_sent_def)
  show ?thesis
    by (simp add: send_notifications_def send_loop_Cons one two three numeral_2_eq_2
        del: send_loop.simps(2))
qed

theorem fanout_sms_failure_witness:
  "map (\<lambda>n. (notif_type n, status n))
     (repository (fst (send_notifications example_runtime (\<lambda>i. (str_int (int i), py ''t''))
        NotificationManager_init
        \<lparr>order_id = py ''ORD-001'',
         customer = \<lparr>name = py ''Ana'', email = Some (py ''ana.garcia@email.com''),
           phone = Some (py ''600123456''), device_id = Some (py ''DEVICE-ABC-123''),
           notification_preferences = [py ''email'']\<rparr>,
         total = 15050\<rparr>
        [py ''email'', py ''sms'', py ''push'']))) =
   [(py ''email'', py ''sent''), (py ''sms'', py ''failed''), (py ''push'', py ''sent'')]"
  using fanout_sms_failure [of "NotificationManager_init :: int NotificationManager"
      "\<lparr>order_id = py ''ORD-001'',
         customer = \<lparr>name = py ''Ana'', email = Some (py ''ana.garcia@email.com''),
           phone = Some (py ''600123456''), device_id = Some (py ''DEVICE-ABC-123''),
           notification_preferences = [py ''email'']\<rparr>,
         total = 15050\<rparr>"
      "py ''ana.garcia@email.com''" "py ''600123456''" "py ''ABC-123''"
      example_runtime "\<lambda>i. (str_int (int i), py ''t'')"]
  by (simp add: NotificationManager_init_def NotificationFactory_init_def py_def)

subsection \<open>Rejections\<close>



text \<open>
  C10. Both builders raise their \<^verbatim>\<open>ValueError\<close> whenever a component is false at
  \<^verbatim>\<open>build\<close>: one that was never set, and also one that was set to a false value, the
  empty dictionary as data or the empty string as channel. So
  \<^verbatim>\<open>ReportSystem.generate_report\<close> on the payload \<^verbatim>\<open>{}\<close>, with all three tags registered,
  raises \<^verbatim>\<open>Faltan componentes para construir el reporte\<close> whatever the generator, the
  format and the delivery are: nothing of the system changes but the builder's four
  fields, and the history is as before. With a tag that is not registered the call does
  not reach \<^verbatim>\<open>build\<close>; on the payload \<^verbatim>\<open>{}\<close> it raises a \<^verbatim>\<open>ValueError\<close> and keeps the
  history in every case.
\<close>

theorem build_rejects_false_component:
  "(rb_generator b = None \<or> rb_formatter b = None \<or> rb_delivery b = None \<or> rb_data b = None \<or>
      rb_data b = Some [] \<longrightarrow>
      ReportBuilder_build rt clk b = Inl (ValueError missing_components_msg)) \<and>
   ReportBuilder_build rt clk (set_data b []) = Inl (ValueError missing_components_msg) \<and>
   (mb_order mb = None \<or> mb_customer mb = None \<or> mb_channel mb = None \<or>
      mb_channel mb = Some [] \<longrightarrow>
      MessageBuilder_build rt mb = Inl (ValueError missing_message_data_msg)) \<and>
   MessageBuilder_build rt (set_channel mb []) = Inl (ValueError missing_message_data_msg) \<and>
   (report_factory s rtype = Some g \<and> format_strategies s fmt = Some f \<and>
      delivery_strategies s dm = Some d \<longrightarrow>
      ReportSystem_generate_report rt clk s rtype [] fmt dm =
        (Inl (ValueError missing_components_msg),
         s\<lparr>builder := set_data (set_delivery (set_formatter (set_generator (builder s) g) f) d) []\<rparr>) \<and>
      report_history (snd (ReportSystem_generate_report rt clk s rtype [] fmt dm)) =
        report_history s) \<and>
   (\<exists>msg. fst (ReportSystem_generate_report rt clk s rtype [] fmt dm) = Inl (ValueError msg)) \<and>
   report_history (snd (ReportSystem_generate_report rt clk s rtype [] fmt dm)) = report_history s"
  by (auto simp: ReportBuilder_build_def MessageBuilder_build_def set_data_def set_channel_def
      ReportSystem_generate_report_def create_generator_def set_delivery_def set_formatter_def
      set_generator_def
      split: option.splits)

theorem build_rejects_false_component_witness:
  "ReportBuilder_build example_runtime example_clock ReportBuilder_init =
     Inl (ValueError (py ''Faltan componentes para construir el reporte'')) \<and>
   MessageBuilder_build example_runtime MessageBuilder_init =
     Inl (ValueError (py ''Faltan datos para construir el mensaje'')) \<and>
   fst (ReportSystem_generate_report example_runtime example_clock ReportSystem_init
      (py ''sales'') [] (py ''pdf'') (py ''email'')) =
     Inl (ValueError (py ''Faltan componentes para construir el reporte'')) \<and>
   report_history (snd (ReportSystem_generate_report example_runtime example_clock
      ReportSystem_init (py ''sales'') [] (py ''pdf'') (py ''email''))) = []"
proof -
  let ?s = "ReportSystem_init :: int ReportSystem"
  note a = build_rejects_false_component [of "ReportBuilder_init :: int ReportBuilder"
      example_runtime example_clock MessageBuilder_init ?s "py ''sales''" SalesReportGenerator
      "py ''pdf''" PDFFormatter "py ''email''" "EmailDelivery_init None"]
  have reg: "report_factory ?s (py ''sales'') = Some SalesReportGenerator"
    "format_strategies ?s (py ''pdf'') = Some PDFFormatter"
    "delivery_strategies ?s (py ''email'') = Some (EmailDelivery_init None)"
    "report_history ?s = []"
    by (simp_all add: ReportSystem_init_def ReportFactory_init_def)
  have unset: "rb_generator (ReportBuilder_init :: int ReportBuilder) = None"
    "mb_order (MessageBuilder_init :: int MessageBuilder) = None"
    by (simp_all add: ReportBuilder_init_def MessageBuilder_init_def)
  show ?thesis
    using a reg unset by (simp add: missing_components_msg_def missing_message_data_msg_def)
qed

subsection \<open>The generators\<close>



text \<open>
  C8. For an inventory payload whose items each have a name, a string as category and an
  integer as quantity, the generator returns a report whose content and whose metadata
  under \<^verbatim>\<open>total_items\<close> give the sum of the quantities, and whose content gives as number
  of categories the number of distinct category strings. Strings are equal when their
  characters are, so two categories that differ in case are two categories.
\<close>

theorem inventory_totals:
  assumes "map_of data (py ''items'') = Some (PList items)"
    and "map (\<lambda>it. py_getitem it (py ''name'')) items = map Inr names"
    and "map (\<lambda>it. py_getitem it (py ''category'')) items = map (\<lambda>c. Inr (PStr c)) cats"
    and "map (\<lambda>it. py_getitem it (py ''quantity'')) items = map (\<lambda>q. Inr (PInt q)) qs"
  shows "InventoryReportGenerator_generate_report rt clk data =
      Inr \<lparr>content =
              report_header (py ''           REPORTE DE INVENTARIO'') (t_generate clk) @
              py ''Total de productos: '' @ str_int (sum_list qs) @ [10] @
              py ''Categor'' @ [237] @ py ''as: '' @ str_int (int (card (set cats))) @ [10, 10] @
              py ''Inventario actual:'' @ [10] @ replicate 60 45 @ [10] @
              concat (map (\<lambda>(n, c, q). inventory_line rt n (PStr c) (PInt q)) (zip names (zip cats qs))),
            report_type = py ''inventory'', format = py ''raw'',
            report_timestamp = t_report clk,
            metadata = [(py ''total_items'', PInt (sum_list qs))]\<rparr>"
proof -
  have q: "map (\<lambda>it. py_getitem it (py ''quantity'')) items = map Inr (map PInt qs)"
    using assms(4) by simp
  have c: "map (\<lambda>it. py_getitem it (py ''category'')) items = map Inr (map PStr cats)"
    using assms(3) by simp
  have tot: "inventory_calculate_totals rt (PList items) = Inr (PInt (sum_list qs))"
    using sum_field_py_sum_from [OF q, of rt "PInt 0"] py_sum_from_ints [of rt 0 qs]
    by (simp add: inventory_calculate_totals_def)
  obtain res where res: "group_by_category rt (PList items) = Inr res" "length res = card (set cats)"
    using group_by_category_count [OF assms(3)] by blast
  have zips: "map (\<lambda>(n, c, q). inventory_line rt n c q) (zip names (zip (map PStr cats) (map PInt qs))) =
      map (\<lambda>(n, c, q). inventory_line rt n (PStr c) (PInt q)) (zip names (zip cats qs))"
    by (simp add: zip_map2 zip_map1 zip_map_map case_prod_unfold comp_def)
  have ls: "inventory_lines rt items =
      Inr (concat (map (\<lambda>(n, c, q). inventory_line rt n (PStr c) (PInt q)) (zip names (zip cats qs))))"
    using inventory_lines_eq [OF assms(2) c q, of rt] zips by simp
  show ?thesis
    using assms(1) tot res ls by (simp add: InventoryReportGenerator_generate_report_def)
qed

theorem inventory_totals_witness:
  "InventoryReportGenerator_generate_report example_runtime example_clock
     [(py ''items'', PList
        [PDict [(py ''name'', PStr (py ''Mouse'')), (py ''category'', PStr (py ''Accesorios'')),
                (py ''quantity'', PInt 50)],
         PDict [(py ''name'', PStr (py ''Teclado'')), (py ''category'', PStr (py ''accesorios'')),
                (py ''quantity'', PInt 30)],
         PDict [(py ''name'', PStr (py ''Cable'')), (py ''category'', PStr (py ''Accesorios'')),
                (py ''quantity'', PInt 20)]])] =
   Inr \<lparr>content =
          report_header (py ''           REPORTE DE INVENTARIO'') (t_generate example_clock) @
          py ''Total de productos: '' @ py ''100'' @ [10] @
          py ''Categor'' @ [237] @ py ''as: '' @ py ''2'' @ [10, 10] @
          py ''Inventario actual:'' @ [10] @ replicate 60 45 @ [10] @
          inventory_line example_runtime (PStr (py ''Mouse'')) (PStr (py ''Accesorios'')) (PInt 50) @
          inventory_line example_runtime (PStr (py ''Teclado'')) (PStr (py ''accesorios'')) (PInt 30) @
          inventory_line example_runtime (PStr (py ''Cable'')) (PStr (py ''Accesorios'')) (PInt 20),
        report_type = py ''inventory'', format = py ''raw'',
        report_timestamp = t_report example_clock,
        metadata = [(py ''total_items'', PInt 100)]\<rparr>"
proof -
  let ?items = "[PDict [(py ''name'', PStr (py ''Mouse'')), (py ''category'', PStr (py ''Accesorios'')),
                (py ''quantity'', PInt 50)],
         PDict [(py ''name'', PStr (py ''Teclado'')), (py ''category'', PStr (py ''accesorios'')),
                (py ''quantity'', PInt 30)],
         PDict [(py ''name'', PStr (py ''Cable'')), (py ''category'', PStr (py ''Accesorios'')),
                (py ''quantity'', PInt 20)]] :: int pyval list"
  let ?data = "[(py ''items'', PList ?items)]"
  have d1: "map_of ?data (py ''items'') = Some (PList ?items)"
    by simp
  have d2: "map (\<lambda>it. py_getitem it (py ''name'')) ?items =
        map Inr [PStr (py ''Mouse''), PStr (py ''Teclado''), PStr (py ''Cable'')]"
    by simp
  have d3: "map (\<lambda>it. py_getitem it (py ''category'')) ?items =
        map (\<lambda>c. Inr (PStr c)) [py ''Accesorios'', py ''accesorios'', py ''Accesorios'']"
    by simp
  have d4: "map (\<lambda>it. py_getitem it (py ''quantity'')) ?items = map (\<lambda>q. Inr (PInt q)) [50, 30, 20]"
    by simp
  have hundred: "str_int 100 = py ''100''" and two: "str_int 2 = py ''2''"
    by (simp_all add: str_int_def digits.simps py_def)
  have card2: "card (set [py ''Accesorios'', py ''accesorios'', py ''Accesorios'']) = 2"
    by (simp add: card_insert_if)
  from inventory_totals [OF d1 d2 d3 d4, of example_runtime example_clock]
  show ?thesis
    unfolding card2 by (simp add: hundred two)
qed

text \<open>
  C3, as the code has it. No generator validates its payload. A payload without the
  \<^verbatim>\<open>sales\<close> key, without the \<^verbatim>\<open>items\<close> key, or without \<^verbatim>\<open>income\<close> or \<^verbatim>\<open>expenses\<close>
  makes the generator raise the \<^verbatim>\<open>KeyError\<close> of the failed subscript, naming the key
  (\<^verbatim>\<open>income\<close> before \<^verbatim>\<open>expenses\<close>), and no report is produced. Through
  \<^verbatim>\<open>ReportSystem.generate_report\<close>, with the tags registered and a payload that is not
  empty, the error of the generator is what the caller gets, and the history is as
  before.
\<close>

theorem missing_field_raises_KeyError:
  "(map_of data (py ''sales'') = None \<longrightarrow>
      SalesReportGenerator_generate_report rt clk data = Inl (KeyError (py ''sales''))) \<and>
   (map_of data (py ''items'') = None \<longrightarrow>
      InventoryReportGenerator_generate_report rt clk data = Inl (KeyError (py ''items''))) \<and>
   (map_of data (py ''income'') = None \<longrightarrow>
      FinancialReportGenerator_generate_report rt clk data = Inl (KeyError (py ''income''))) \<and>
   (map_of data (py ''income'') \<noteq> None \<and> map_of data (py ''expenses'') = None \<longrightarrow>
      FinancialReportGenerator_generate_report rt clk data = Inl (KeyError (py ''expenses''))) \<and>
   (report_factory s rtype = Some g \<and> format_strategies s fmt = Some f \<and>
      delivery_strategies s dm = Some d \<and> data \<noteq> [] \<and>
      generate_report rt clk g data = Inl e \<longrightarrow>
      fst (ReportSystem_generate_report rt clk s rtype data fmt dm) = Inl e \<and>
      report_history (snd (ReportSystem_generate_report rt clk s rtype data fmt dm)) =
        report_history s)"
proof -
  have "map_of data (py ''sales'') = None \<Longrightarrow>
      SalesReportGenerator_generate_report rt clk data = Inl (KeyError (py ''sales''))"
    by (simp add: SalesReportGenerator_generate_report_def)
  moreover have "map_of data (py ''items'') = None \<Longrightarrow>
      InventoryReportGenerator_generate_report rt clk data = Inl (KeyError (py ''items''))"
    by (simp add: InventoryReportGenerator_generate_report_def)
  moreover have "map_of data (py ''income'') = None \<Longrightarrow>
      FinancialReportGenerator_generate_report rt clk data = Inl (KeyError (py ''income''))"
    by (simp add: FinancialReportGenerator_generate_report_def)
  moreover have "map_of data (py ''income'') \<noteq> None \<Longrightarrow> map_of data (py ''expenses'') = None \<Longrightarrow>
      FinancialReportGenerator_generate_report rt clk data = Inl (KeyError (py ''expenses''))"
    by (auto simp: FinancialReportGenerator_generate_report_def)
  moreover have "report_factory s rtype = Some g \<Longrightarrow> format_strategies s fmt = Some f \<Longrightarrow>
      delivery_strategies s dm = Some d \<Longrightarrow> data \<noteq> [] \<Longrightarrow>
      generate_report rt clk g data = Inl e \<Longrightarrow>
      fst (ReportSystem_generate_report rt clk s rtype data fmt dm) = Inl e \<and>
      report_history (snd (ReportSystem_generate_report rt clk s rtype data fmt dm)) =
        report_history s"
    by (simp add: generator_error_propagates)
  ultimately show ?thesis by blast
qed

theorem missing_field_raises_KeyError_witness:
  "SalesReportGenerator_generate_report example_runtime example_clock
     [(py ''period'', PStr (py ''Enero 2024''))] = Inl (KeyError (py ''sales'')) \<and>
   InventoryReportGenerator_generate_report example_runtime example_clock
     [(py ''period'', PStr (py ''Enero 2024''))] = Inl (KeyError (py ''items'')) \<and>
   FinancialReportGenerator_generate_report example_runtime example_clock
     [(py ''period'', PStr (py ''Enero 2024''))] = Inl (KeyError (py ''income'')) \<and>
   FinancialReportGenerator_generate_report example_runtime example_clock
     [(py ''income'', PFloat 5000000)] = Inl (KeyError (py ''expenses'')) \<and>
   fst (ReportSystem_generate_report example_runtime example_clock ReportSystem_init
     (py ''sales'') [(py ''period'', PStr (py ''Enero 2024''))] (py ''pdf'') (py ''email'')) =
     Inl (KeyError (py ''sales'')) \<and>
   report_history (snd (ReportSystem_generate_report example_runtime example_clock
     ReportSystem_init (py ''sales'') [(py ''period'', PStr (py ''Enero 2024''))] (py ''pdf'')
     (py ''email''))) = []"
proof -
  let ?s = "ReportSystem_init :: int ReportSystem"
  let ?p = "[(py ''period'', PStr (py ''Enero 2024''))] :: int dict"
  let ?q = "[(py ''income'', PFloat 5000000)] :: int dict"
  have p: "map_of ?p (py ''sales'') = None" "map_of ?p (py ''items'') = None"
    "map_of ?p (py ''income'') = None" "?p \<noteq> []"
    by simp_all
  have q: "map_of ?q (py ''income'') \<noteq> None" "map_of ?q (py ''expenses'') = None"
    by simp_all
  have reg: "report_factory ?s (py ''sales'') = Some SalesReportGenerator"
    "format_strategies ?s (py ''pdf'') = Some PDFFormatter"
    "delivery_strategies ?s (py ''email'') = Some (EmailDelivery_init None)"
    "report_history ?s = []"
    by (simp_all add: ReportSystem_init_def ReportFactory_init_def)
  note a = missing_field_raises_KeyError [of ?p example_runtime example_clock ?s "py ''sales''"
      SalesReportGenerator "py ''pdf''" PDFFormatter "py ''email''" "EmailDelivery_init None"
      "KeyError (py ''sales'')"]
  note b = missing_field_raises_KeyError [of ?q example_runtime example_clock ?s "py ''sales''"
      SalesReportGenerator "py ''pdf''" PDFFormatter "py ''email''" "EmailDelivery_init None"
      "KeyError (py ''sales'')"]
  have gen: "generate_report example_runtime example_clock SalesReportGenerator ?p =
      Inl (KeyError (py ''sales''))"
    using a p(1) by simp
  show ?thesis
    using a b p q reg gen by simp
qed

text \<open>
  C3, as the specification words it, fails: a sales payload with a period and no sales
  does not end in a validation error; it ends in the \<^verbatim>\<open>KeyError\<close> of the subscript
  \<^verbatim>\<open>data['sales']\<close>.
\<close>

theorem missing_sales_is_KeyError:
  "SalesReportGenerator_generate_report example_runtime example_clock
     [(py ''period'', PStr (py ''Enero 2024''))] = Inl (KeyError (py ''sales''))"
  by (simp add: SalesReportGenerator_generate_report_def)

subsection \<open>The end-to-end scenario\<close>

text \<open>
  C1. The first report of the module's own run, on the system as constructed (with any
  history \<open>h\<close>), for any four float amounts: the report returned carries the sales
  content between the PDF markers, with the two-decimal rendering of the float sum as
  total; the email delivery returns \<^verbatim>\<open>True\<close>; and exactly one entry is appended to the
  history, of type \<^verbatim>\<open>sales\<close>. Its format is \<^verbatim>\<open>raw\<close>, not \<^verbatim>\<open>pdf\<close>: the generator creates
  the report with format \<^verbatim>\<open>raw\<close>, and \<^verbatim>\<open>build\<close> replaces the content of the report but
  not its format.
\<close>

theorem sales_pdf_email_history_format:
  "fst (ReportSystem_generate_report rt clk (ReportSystem_init\<lparr>report_history := h\<rparr>)
      (py ''sales'') (sales_data a1 a2 a3 a4) (py ''pdf'') (py ''email'')) =
     Inr \<lparr>content =
            py ''[PDF FORMAT]'' @ [10] @
            (report_header (py ''           REPORTE DE VENTAS'') (t_generate clk) @
             py ''Total de ventas: $'' @
             f_fmt2 rt (f_add rt (f_add rt (f_add rt (f_add rt (f_of_int rt 0) a1) a2) a3) a4) @ [10] @
             py ''N'' @ [250] @ py ''mero de transacciones: '' @ py ''4'' @ [10] @
             py ''Periodo: '' @ py ''Enero 2024'' @ [10, 10] @
             py ''Detalle de ventas:'' @ [10] @ replicate 60 45 @ [10] @
             sale_line rt (PStr (py ''Laptop HP'')) (f_fmt2 rt a1) @
             sale_line rt (PStr (py ''Mouse Logitech'')) (f_fmt2 rt a2) @
             sale_line rt (PStr (py ''Teclado Mec'' @ [225] @ py ''nico'')) (f_fmt2 rt a3) @
             sale_line rt (PStr (py ''Monitor LG 24'' @ [34])) (f_fmt2 rt a4)) @
            [10] @ py ''[END PDF]'',
          report_type = py ''sales'', format = py ''raw'',
          report_timestamp = t_report clk,
          metadata = [(py ''period'', PStr (py ''Enero 2024''))]\<rparr> \<and>
   report_history (snd (ReportSystem_generate_report rt clk (ReportSystem_init\<lparr>report_history := h\<rparr>)
      (py ''sales'') (sales_data a1 a2 a3 a4) (py ''pdf'') (py ''email''))) =
     h @ [\<lparr>entry_type = py ''sales'', entry_format = py ''raw'', entry_timestamp = t_report clk,
           entry_metadata = [(py ''period'', PStr (py ''Enero 2024''))]\<rparr>] \<and>
   deliver (EmailDelivery_init None) c md = Inr True"
proof -
  let ?items = "[PDict [(py ''product'', PStr (py ''Laptop HP'')), (py ''amount'', PFloat a1)],
         PDict [(py ''product'', PStr (py ''Mouse Logitech'')), (py ''amount'', PFloat a2)],
         PDict [(py ''product'', PStr (py ''Teclado Mec'' @ [225] @ py ''nico'')), (py ''amount'', PFloat a3)],
         PDict [(py ''product'', PStr (py ''Monitor LG 24'' @ [34])), (py ''amount'', PFloat a4)]]"
  let ?data = "sales_data a1 a2 a3 a4"
  have d1: "map_of ?data (py ''sales'') = Some (PList ?items)"
    by (simp add: sales_data_def)
  have d2: "map_of ?data (py ''period'') = Some (PStr (py ''Enero 2024''))"
    by (simp add: sales_data_def)
  have d3: "map (\<lambda>it. py_getitem it (py ''product'')) ?items =
      map Inr [PStr (py ''Laptop HP''), PStr (py ''Mouse Logitech''),
        PStr (py ''Teclado Mec'' @ [225] @ py ''nico''), PStr (py ''Monitor LG 24'' @ [34])]"
    by simp
  have d4: "map (\<lambda>it. py_getitem it (py ''amount'')) ?items =
      map Inr [PFloat a1, PFloat a2, PFloat a3, PFloat a4]"
    by simp
  have d5: "map (format_2f rt) [PFloat a1, PFloat a2, PFloat a3, PFloat a4] =
      map Inr [f_fmt2 rt a1, f_fmt2 rt a2, f_fmt2 rt a3, f_fmt2 rt a4]"
    by simp
  have d6: "py_sum rt [PFloat a1, PFloat a2, PFloat a3, PFloat a4] =
      Inr (PFloat (f_add rt (f_add rt (f_add rt (f_add rt (f_of_int rt 0) a1) a2) a3) a4))"
    by (simp add: py_sum_def float_of_int_0)
  have d7: "format_2f rt (PFloat (f_add rt (f_add rt (f_add rt (f_add rt (f_of_int rt 0) a1) a2) a3) a4)) =
      Inr (f_fmt2 rt (f_add rt (f_add rt (f_add rt (f_add rt (f_of_int rt 0) a1) a2) a3) a4))"
    by simp
  have four: "str_int 4 = py ''4''"
    by (simp add: str_int_def digits.simps py_def)
  note gen = sales_report_eq [OF d1 d2 d3 d4 d5 d6 d7, of clk]
  note dl = deliver_default_email
  have ne: "?data \<noteq> []"
    by (simp add: sales_data_def)
  have build: "ReportBuilder_build rt clk
      \<lparr>rb_generator = Some SalesReportGenerator, rb_formatter = Some PDFFormatter,
       rb_delivery = Some (EmailDelivery_init None), rb_data = Some ?data\<rparr> =
      Inr \<lparr>content =
            py ''[PDF FORMAT]'' @ [10] @
            (report_header (py ''           REPORTE DE VENTAS'') (t_generate clk) @
             py ''Total de ventas: $'' @
             f_fmt2 rt (f_add rt (f_add rt (f_add rt (f_add rt (f_of_int rt 0) a1) a2) a3) a4) @ [10] @
             py ''N'' @ [250] @ py ''mero de transacciones: '' @ py ''4'' @ [10] @
             py ''Periodo: '' @ py ''Enero 2024'' @ [10, 10] @
             py ''Detalle de ventas:'' @ [10] @ replicate 60 45 @ [10] @
             sale_line rt (PStr (py ''Laptop HP'')) (f_fmt2 rt a1) @
             sale_line rt (PStr (py ''Mouse Logitech'')) (f_fmt2 rt a2) @
             sale_line rt (PStr (py ''Teclado Mec'' @ [225] @ py ''nico'')) (f_fmt2 rt a3) @
             sale_line rt (PStr (py ''Monitor LG 24'' @ [34])) (f_fmt2 rt a4)) @
            [10] @ py ''[END PDF]'',
          report_type = py ''sales'', format = py ''raw'',
          report_timestamp = t_report clk,
          metadata = [(py ''period'', PStr (py ''Enero 2024''))]\<rparr>"
    using ne by (simp add: ReportBuilder_build_def gen dl get_content_def four)
  show ?thesis
    by (simp add: ReportSystem_generate_report_def ReportSystem_init_def ReportFactory_init_def
        create_generator_def ReportBuilder_init_def set_data_def set_delivery_def set_formatter_def
        set_generator_def build log_report_def dl)
qed

text \<open>The same on the example runtime, with the amounts 899.99, 25.50, 120.00 and 199.99.\<close>

theorem sales_pdf_email_history_format_witness:
  "report_history (snd (ReportSystem_generate_report example_runtime example_clock
      ReportSystem_init (py ''sales'') (sales_data 89999 2550 12000 19999) (py ''pdf'')
      (py ''email''))) =
     [\<lparr>entry_type = py ''sales'', entry_format = py ''raw'',
       entry_timestamp = py ''2024-01-31 10:00:01'',
       entry_metadata = [(py ''period'', PStr (py ''Enero 2024''))]\<rparr>] \<and>
   f_fmt2 example_runtime
     (f_add example_runtime (f_add example_runtime (f_add example_runtime
       (f_add example_runtime (f_of_int example_runtime 0) 89999) 2550) 12000) 19999) =
     py ''1245.48''"
proof -
  have init: "(ReportSystem_init :: int ReportSystem)\<lparr>report_history := []\<rparr> = ReportSystem_init"
    by (simp add: ReportSystem_init_def)
  have stamp: "t_report example_clock = py ''2024-01-31 10:00:01''"
    by (simp add: example_clock_def)
  have total: "f_fmt2 example_runtime
     (f_add example_runtime (f_add example_runtime (f_add example_runtime
       (f_add example_runtime (f_of_int example_runtime 0) 89999) 2550) 12000) 19999) =
     py ''1245.48''"
    by (simp add: example_runtime_def hundredths_fmt2_def two_digits_def digits.simps py_def)
  note run = sales_pdf_email_history_format [of example_runtime example_clock "[]" 89999 2550
      12000 19999 "[]" "[]"]
  have "report_history (snd (ReportSystem_generate_report example_runtime example_clock
      ReportSystem_init (py ''sales'') (sales_data 89999 2550 12000 19999) (py ''pdf'')
      (py ''email''))) =
     [\<lparr>entry_type = py ''sales'', entry_format = py ''raw'',
       entry_timestamp = py ''2024-01-31 10:00:01'',
       entry_metadata = [(py ''period'', PStr (py ''Enero 2024''))]\<rparr>]"
    using run [THEN conjunct2, THEN conjunct1] unfolding init stamp by simp
  with total show ?thesis by blast
qed

end
